theory Spec2Isabelle
  imports Complex_Main
begin

section \<open>Numbers and geodesy (src/utils/locationUtils.ts)\<close>

text \<open>
  The program computes with JavaScript numbers. They are modelled as the real numbers:
  every arithmetic operation is the exact one, and the values NaN and the infinities
  do not exist. The trigonometric functions of \<open>Math\<close> are the real ones.
\<close>

record Point =
  lat :: real
  lng :: real

definition toRad :: "real \<Rightarrow> real" where
  "toRad v = v * pi / 180"

text \<open>\<open>Math.atan2(y, x)\<close>: the angle of the point \<open>(x, y)\<close>, in \<open>(-pi, pi]\<close>.\<close>

definition atan2 :: "real \<Rightarrow> real \<Rightarrow> real" where
  "atan2 y x =
     (if 0 < x then arctan (y / x)
      else if x < 0 then (if 0 \<le> y then arctan (y / x) + pi else arctan (y / x) - pi)
      else if 0 < y then pi / 2
      else if y < 0 then - (pi / 2)
      else 0)"

text \<open>
  \<open>parseFloat(x.toFixed(f))\<close>: \<open>toFixed\<close> takes the sign off, picks the integer \<open>n\<close>
  with \<open>n / 10^f\<close> nearest to the magnitude (the larger one on a tie) and prints it with
  \<open>f\<close> decimals; \<open>parseFloat\<close> reads that number back.
\<close>

definition toFixedNum :: "nat \<Rightarrow> real \<Rightarrow> real" where
  "toFixedNum f x =
     (if x < 0 then - (real_of_int (round (- x * 10 ^ f)) / 10 ^ f)
      else real_of_int (round (x * 10 ^ f)) / 10 ^ f)"

definition calculateDistance :: "real \<Rightarrow> real \<Rightarrow> real \<Rightarrow> real \<Rightarrow> real" where
  "calculateDistance lat1 lon1 lat2 lon2 =
     (let R = 3958.8;
          dLat = toRad (lat2 - lat1);
          dLon = toRad (lon2 - lon1);
          a = sin (dLat / 2) * sin (dLat / 2) +
              cos (toRad lat1) * cos (toRad lat2) * sin (dLon / 2) * sin (dLon / 2);
          c = 2 * atan2 (sqrt a) (sqrt (1 - a));
          distance = R * c
      in toFixedNum 2 distance)"

section \<open>Live tracking (the tracking effect of components/Map.tsx)\<close>

text \<open>
  The component keeps two mutable references, \<open>lastPosition\<close> (initially \<open>null\<close>) and
  \<open>accumulatedDistance\<close> (initially 0). They are the state of the tracker; every
  operation takes the state and returns the new one.
\<close>

record tracker =
  lastPosition :: "Point option"
  accumulatedDistance :: real

definition initialTracker :: tracker where
  "initialTracker = \<lparr>lastPosition = None, accumulatedDistance = 0\<rparr>"

text \<open>
  \<open>initializeMap\<close> stores the position it centred the map on as the last position.
  The tracking effect does nothing while the map does not exist, so tracking only ever
  starts after this assignment.
\<close>

definition initializeMap :: "tracker \<Rightarrow> real \<Rightarrow> real \<Rightarrow> tracker" where
  "initializeMap t latitude longitude =
     t\<lparr>lastPosition := Some \<lparr>lat = latitude, lng = longitude\<rparr>\<rparr>"

text \<open>
  The start of the tracking effect, before the subscription:
  \<open>accumulatedDistance.current = 0\<close>. It is the only reset of the tracker.
\<close>

definition startTracking :: "tracker \<Rightarrow> tracker" where
  "startTracking t = t\<lparr>accumulatedDistance := 0\<rparr>"

text \<open>
  The success callback handed to \<open>watchPosition\<close>, for one sample. The second component
  of the result is the call of \<open>onLocationUpdate(latitude, longitude, distance)\<close> the
  callback makes, if it makes one; the page always passes this callback to the component.
  Moving the marker and the map is display only and is left out.
\<close>

type_synonym locationUpdate = "real \<times> real \<times> real"

definition onPosition :: "tracker \<Rightarrow> real \<Rightarrow> real \<Rightarrow> tracker \<times> locationUpdate option" where
  "onPosition t latitude longitude =
     (let (t1, call) =
        (case lastPosition t of
           Some p \<Rightarrow>
             (let segmentDistance = calculateDistance (lat p) (lng p) latitude longitude
              in if segmentDistance < 0.1
                 then (let t' = t\<lparr>accumulatedDistance := accumulatedDistance t + segmentDistance\<rparr>
                       in (t', Some (latitude, longitude, accumulatedDistance t')))
                 else (t, None))
         | None \<Rightarrow> (t, None))
      in (t1\<lparr>lastPosition := Some \<lparr>lat = latitude, lng = longitude\<rparr>\<rparr>, call))"

text \<open>
  The samples of one subscription, processed in delivery order; the calls of
  \<open>onLocationUpdate\<close> are collected in order.
\<close>

fun watchPosition :: "tracker \<Rightarrow> Point list \<Rightarrow> tracker \<times> locationUpdate list" where
  "watchPosition t [] = (t, [])"
| "watchPosition t (sample # rest) =
     (let (t1, call) = onPosition t (lat sample) (lng sample);
          (t2, calls) = watchPosition t1 rest
      in (t2, (case call of Some u \<Rightarrow> [u] | None \<Rightarrow> []) @ calls))"

text \<open>
  The length of a polyline: the sum of the distances of consecutive points, as the loop
  over \<open>routePoints\<close> in the directions-based \<open>generateRouteOptions\<close> adds them up.
\<close>

fun pathDistance :: "Point list \<Rightarrow> real" where
  "pathDistance (a # b # rest) =
     calculateDistance (lat a) (lng a) (lat b) (lng b) + pathDistance (b # rest)"
| "pathDistance _ = 0"

text \<open>Every consecutive segment is shorter than 0.1 miles.\<close>

fun smallSteps :: "Point list \<Rightarrow> bool" where
  "smallSteps (a # b # rest) =
     (calculateDistance (lat a) (lng a) (lat b) (lng b) < 0.1 \<and> smallSteps (b # rest))"
| "smallSteps _ = True"

text \<open>
  What the first sample of a subscription adds to the distance: nothing when no last
  position is held, else its distance from the held position when that passes the filter.
\<close>

fun baselineSegment :: "Point option \<Rightarrow> Point list \<Rightarrow> real" where
  "baselineSegment (Some p) (s # rest) =
     (let d = calculateDistance (lat p) (lng p) (lat s) (lng s) in if d < 0.1 then d else 0)"
| "baselineSegment _ _ = 0"

section \<open>The run session (pages/Index.tsx)\<close>

text \<open>
  The React state of the page that the run uses.
\<close>

record session =
  targetDistance :: real
  currentDistance :: real
  runningDuration :: nat
  isRunningMode :: bool
  hasReachedTarget :: bool

datatype notification =
  Vibrate "nat list"
| ToastTargetReached real

text \<open>
  The target-distance branch of \<open>handleDistanceSubmit\<close>: a run starts. The panel flags,
  the timer and the toast of the branch do not touch the fields of \<open>session\<close>.
\<close>

definition startTargetRun :: "session \<Rightarrow> real \<Rightarrow> session" where
  "startTargetRun s distance =
     s\<lparr>targetDistance := distance, currentDistance := 0, runningDuration := 0,
       isRunningMode := True, hasReachedTarget := False\<rparr>"

text \<open>
  \<open>Index\<close> is a function component. Every render reads the React state into constants
  and creates a new \<open>handleLocationUpdate\<close> that closes over them: the handler sees the
  \<open>hasReachedTarget\<close> and \<open>targetDistance\<close> of the render that created it. The setters
  it calls write the React state for the next render; they do not change what the
  handler captured. So the handler is a function of the state its render read, and its
  result is the setter calls it makes, in order, and the notifications it raises.
\<close>

datatype stateUpdate =
  SetCurrentDistance real
| SetHasReachedTarget bool

definition handleLocationUpdate ::
  "session \<Rightarrow> real \<Rightarrow> real \<Rightarrow> real \<Rightarrow> stateUpdate list \<times> notification list" where
  "handleLocationUpdate render latitude longitude distance =
     (if \<not> hasReachedTarget render \<and> distance \<ge> targetDistance render
      then ([SetCurrentDistance distance, SetHasReachedTarget True],
            [Vibrate [200, 100, 200, 100, 200], ToastTargetReached (targetDistance render)])
      else ([SetCurrentDistance distance], []))"

fun applyUpdate :: "session \<Rightarrow> stateUpdate \<Rightarrow> session" where
  "applyUpdate s (SetCurrentDistance d) = s\<lparr>currentDistance := d\<rparr>"
| "applyUpdate s (SetHasReachedTarget b) = s\<lparr>hasReachedTarget := b\<rparr>"

text \<open>
  The page during a run: the React state, and the state read by the render whose
  handler the position subscription of \<open>Map\<close> currently calls.
\<close>

record page =
  reactState :: session
  subscribed :: session

text \<open>
  What happens to the page during a run. A location update is a call of the subscribed
  handler. A re-render is \<open>Index\<close> rendering with the current React state and the effect
  of \<open>Map\<close>, which depends on \<open>onLocationUpdate\<close>, subscribing the handler of that render
  in place of the old one.
\<close>

datatype event =
  LocationUpdate real real real
| Rerender

text \<open>
  The events of one run, in order: the final page and, for each location update, the
  notifications it raised (none, or the vibration and the toast of the target reached).
\<close>

fun handleEvents :: "page \<Rightarrow> event list \<Rightarrow> page \<times> notification list list" where
  "handleEvents p [] = (p, [])"
| "handleEvents p (LocationUpdate latitude longitude distance # rest) =
     (let (updates, ns) = handleLocationUpdate (subscribed p) latitude longitude distance;
          (p', nss) = handleEvents (p\<lparr>reactState := foldl applyUpdate (reactState p) updates\<rparr>) rest
      in (p', ns # nss))"
| "handleEvents p (Rerender # rest) = handleEvents (p\<lparr>subscribed := reactState p\<rparr>) rest"

definition initialSession :: session where
  "initialSession =
     \<lparr>targetDistance = 0, currentDistance = 0, runningDuration = 0,
      isRunningMode = False, hasReachedTarget = False\<rparr>"

text \<open>
  A run with a target starts: the state is set, \<open>Index\<close> renders with it and \<open>Map\<close>, now
  tracking, subscribes the handler of that render.
\<close>

definition beginRun :: "session \<Rightarrow> real \<Rightarrow> page" where
  "beginRun s distance =
     \<lparr>reactState = startTargetRun s distance, subscribed = startTargetRun s distance\<rparr>"

text \<open>The events of a run in which a re-render follows every location update.\<close>

fun rerenderEach :: "locationUpdate list \<Rightarrow> event list" where
  "rerenderEach [] = []"
| "rerenderEach ((latitude, longitude, distance) # rest) =
     LocationUpdate latitude longitude distance # Rerender # rerenderEach rest"

section \<open>Printing numbers\<close>

definition digitChar :: "nat \<Rightarrow> char" where
  "digitChar d = ''0123456789'' ! d"

fun showNat :: "nat \<Rightarrow> string" where
  "showNat n = (if n < 10 then [digitChar n] else showNat (n div 10) @ [digitChar (n mod 10)])"

declare showNat.simps [simp del]









section \<open>Routes from the directions service (utils/mapUtils.ts, directions version)\<close>

text \<open>
  One request to the directions service ends in one of these ways: \<open>fetch\<close> rejects
  (no network); a response arrives, with its \<open>ok\<close> flag and a body. The body is not the
  expected JSON (\<open>json()\<close> rejects, or a route has no geometry), or it carries the list
  \<open>routes\<close>, each route the list of its \<open>[lng, lat]\<close> coordinates; a body without
  \<open>routes\<close> behaves as one with an empty list.
\<close>

datatype body = Malformed | Directions "(real \<times> real) list list"

datatype fetchResult = Rejected | Response bool body

text \<open>
  The service is any function from the number of requests made before and the two end
  points \<open>(lng, lat)\<close> of the request to the outcome, so every sequence of failures and
  successes is one service.
\<close>

type_synonym directions = "nat \<Rightarrow> real \<times> real \<Rightarrow> real \<times> real \<Rightarrow> fetchResult"

datatype failure = FetchRejected | FailedToFetch | BadBody | NoRoutesFound | TypeError

definition toPoints :: "(real \<times> real) list \<Rightarrow> Point list" where
  "toPoints coordinates = map (\<lambda>coord. \<lparr>lat = snd coord, lng = fst coord\<rparr>) coordinates"

text \<open>
  The \<open>try\<close> block of \<open>fetchRouteFromMapbox\<close>: the polyline it returns or the exception it
  throws, and the request counter. The access token only goes into the request and is
  left out.
\<close>

definition tryRoute ::
  "directions \<Rightarrow> nat \<Rightarrow> real \<Rightarrow> real \<Rightarrow> real \<Rightarrow> real \<Rightarrow> (failure + Point list) \<times> nat" where
  "tryRoute fetch k startLat startLng targetDist directionBias =
     (let milesPerDegree = 69;
          distanceFraction = targetDist * 0.45 / milesPerDegree;
          destLat = startLat + cos directionBias * distanceFraction;
          destLng = startLng + sin directionBias * distanceFraction / cos (startLat * pi / 180)
      in case fetch k (startLng, startLat) (destLng, destLat) of
           Rejected \<Rightarrow> (Inl FetchRejected, Suc k)
         | Response ok data \<Rightarrow>
             if \<not> ok then (Inl FailedToFetch, Suc k)
             else (case data of
                     Malformed \<Rightarrow> (Inl BadBody, Suc k)
                   | Directions [] \<Rightarrow> (Inl NoRoutesFound, Suc k)
                   | Directions (coordinates # _) \<Rightarrow>
                       (let points = toPoints coordinates
                        in if points = [] then (Inl TypeError, Suc k)
                           else (case fetch (Suc k) (lng (last points), lat (last points))
                                        (startLng, startLat) of
                                   Rejected \<Rightarrow> (Inl FetchRejected, Suc (Suc k))
                                 | Response returnOk returnData \<Rightarrow>
                                     if returnOk
                                     then (case returnData of
                                             Malformed \<Rightarrow> (Inl BadBody, Suc (Suc k))
                                           | Directions [] \<Rightarrow> (Inr points, Suc (Suc k))
                                           | Directions (returnCoordinates # _) \<Rightarrow>
                                               (Inr (points @ toPoints (tl returnCoordinates)),
                                                Suc (Suc k)))
                                     else (Inr points, Suc (Suc k))))))"

text \<open>
  \<open>fetchRouteFromMapbox\<close>. Its \<open>catch\<close> block calls the function itself, so the recursion
  has no bound in the source; the first argument bounds the depth of calls, and the
  result is \<open>None\<close> when the call has not returned within that depth. A result
  \<open>Some (Inl e, k)\<close> is a call that throws \<open>e\<close>, \<open>Some (Inr points, k)\<close> one that returns.
\<close>

fun fetchRouteFromMapbox ::
  "nat \<Rightarrow> directions \<Rightarrow> nat \<Rightarrow> real \<Rightarrow> real \<Rightarrow> real \<Rightarrow> real \<Rightarrow> ((failure + Point list) \<times> nat) option" where
  "fetchRouteFromMapbox 0 fetch k startLat startLng targetDist directionBias = None"
| "fetchRouteFromMapbox (Suc depth) fetch k startLat startLng targetDist directionBias =
     (case tryRoute fetch k startLat startLng targetDist directionBias of
        (Inr points, k1) \<Rightarrow> Some (Inr points, k1)
      | (Inl err, k1) \<Rightarrow>
          (let newDirection = directionBias + pi / 2
           in case fetchRouteFromMapbox depth fetch k1 startLat startLng targetDist newDirection of
                None \<Rightarrow> None
              | Some (Inr points, k2) \<Rightarrow> Some (Inr points, k2)
              | Some (Inl secondError, k2) \<Rightarrow>
                  if targetDist > 0.5
                  then (case fetchRouteFromMapbox depth fetch k2 startLat startLng
                               (targetDist * 0.7) (directionBias + pi) of
                          None \<Rightarrow> None
                        | Some (Inr points, k3) \<Rightarrow> Some (Inr points, k3)
                        | Some (Inl thirdError, k3) \<Rightarrow>
                            Some (Inr [\<lparr>lat = startLat, lng = startLng\<rparr>], k3))
                  else Some (Inr [\<lparr>lat = startLat, lng = startLng\<rparr>], k2)))"

text \<open>The service with no network: every request is rejected.\<close>

definition offline :: directions where
  "offline k origin destination = Rejected"

section \<open>Geometric route synthesis (utils/mapUtils.ts, geometric version)\<close>

text \<open>
  \<open>Math.random()\<close> is a sequence \<open>random\<close> of numbers and a counter of how many have been
  drawn; every function that draws returns the counter with its result. The division
  by the cosine of the latitude is the real one: at a pole, where the cosine is 0,
  HOL's quotient is 0 while JavaScript's is infinite. No statement below reads that value.
\<close>

definition generatePointAtDistance ::
  "(nat \<Rightarrow> real) \<Rightarrow> nat \<Rightarrow> real \<Rightarrow> real \<Rightarrow> real \<Rightarrow> Point \<times> nat" where
  "generatePointAtDistance random k centerLat centerLng distance =
     (let milesPerDegree = 69;
          distanceFraction = distance / milesPerDegree;
          angle = random k * 2 * pi;
          lat' = centerLat + cos angle * distanceFraction;
          lng' = centerLng + sin angle * distanceFraction / cos (centerLat * pi / 180)
      in (\<lparr>lat = lat', lng = lng'\<rparr>, Suc k))"

text \<open>
  The waypoint loop of \<open>generateRoute\<close>; the argument after \<open>random\<close> counts the
  iterations left.
\<close>

fun waypointLoop ::
  "(nat \<Rightarrow> real) \<Rightarrow> nat \<Rightarrow> nat \<Rightarrow> real \<Rightarrow> real \<Rightarrow> real \<Rightarrow> Point list \<Rightarrow> Point list \<times> nat" where
  "waypointLoop random 0 k currentLat currentLng intervalDistance routePoints = (routePoints, k)"
| "waypointLoop random (Suc m) k currentLat currentLng intervalDistance routePoints =
     (let (point, k') = generatePointAtDistance random k currentLat currentLng intervalDistance
      in waypointLoop random m k' (lat point) (lng point) intervalDistance (routePoints @ [point]))"

definition generateRoute ::
  "(nat \<Rightarrow> real) \<Rightarrow> nat \<Rightarrow> real \<Rightarrow> real \<Rightarrow> real \<Rightarrow> Point list \<times> nat" where
  "generateRoute random k startLat startLng targetDist =
     (let routePoints = [\<lparr>lat = startLat, lng = startLng\<rparr>];
          numWaypoints = max 3 \<lfloor>targetDist * 3\<rfloor>;
          intervalDistance = targetDist / real_of_int numWaypoints;
          (routePoints', k') =
             waypointLoop random (nat (numWaypoints - 1)) k startLat startLng
               intervalDistance routePoints
      in (routePoints' @ [\<lparr>lat = startLat, lng = startLng\<rparr>], k'))"

record Route =
  routeId :: string
  points :: "Point list"
  distance :: real
  description :: string
  color :: string

definition colors :: "string list" where
  "colors = [''#1EAEDB'', ''#4CD964'', ''#9b87f5'']"

definition descriptions :: "string list" where
  "descriptions =
     [''Loop around nearby area'', ''Scenic neighborhood route'', ''Discover new paths'']"

text \<open>The loop of \<open>generateRouteOptions\<close>: \<open>m\<close> iterations are left, \<open>i\<close> is the loop index.\<close>

fun routeLoop ::
  "(nat \<Rightarrow> real) \<Rightarrow> nat \<Rightarrow> nat \<Rightarrow> nat \<Rightarrow> real \<Rightarrow> real \<Rightarrow> real \<Rightarrow> Route list \<Rightarrow> Route list \<times> nat" where
  "routeLoop random 0 i k startLat startLng targetDist routes = (routes, k)"
| "routeLoop random (Suc m) i k startLat startLng targetDist routes =
     (let variationFactor = 0.95 + random k * 0.1;
          adjustedDistance = targetDist * variationFactor;
          (routePoints, k') = generateRoute random (Suc k) startLat startLng adjustedDistance;
          route = \<lparr>routeId = ''route-'' @ showNat i,
                   points = routePoints,
                   distance = adjustedDistance,
                   description = descriptions ! (i mod length descriptions),
                   color = colors ! (i mod length colors)\<rparr>
      in routeLoop random m (Suc i) k' startLat startLng targetDist (routes @ [route]))"

text \<open>
  A call either returns its routes or fails with an error. The function has no check of
  its arguments and no \<open>throw\<close>, and nothing it calls can fail on numbers: every call
  returns. \<open>numRoutes\<close> is an integer; the loop \<open>for (i = 0; i < numRoutes; i++)\<close> runs
  \<open>nat numRoutes\<close> times.
\<close>

datatype error = ValidationError string

definition generateRouteOptions ::
  "(nat \<Rightarrow> real) \<Rightarrow> nat \<Rightarrow> real \<Rightarrow> real \<Rightarrow> real \<Rightarrow> int \<Rightarrow> error + (Route list \<times> nat)" where
  "generateRouteOptions random k startLat startLng targetDist numRoutes =
     Inr (routeLoop random (nat numRoutes) 0 k startLat startLng targetDist [])"

text \<open>The random source that always draws the same number.\<close>

definition fixedRandom :: "real \<Rightarrow> nat \<Rightarrow> real" where
  "fixedRandom v k = v"

section \<open>Facts about the distance function\<close>

lemma calculateDistance_antipode: "0.1 \<le> calculateDistance 0 0 0 180"
proof -
  have c: "calculateDistance 0 0 0 180 = real_of_int (round (3958.8 * pi * 100)) / 100"
    using pi_gt_zero by (simp add: calculateDistance_def toRad_def atan2_def toFixedNum_def Let_def)
  have "(10::real) \<le> 3958.8 * pi * 100" using pi_ge_two by simp
  hence "round (10::real) \<le> round (3958.8 * pi * 100)" by (rule round_mono)
  hence "10 \<le> round (3958.8 * pi * 100)" by simp
  thus ?thesis unfolding c by simp
qed

lemma calculateDistance_meridian:
  assumes "0 \<le> d" "d < 180"
  shows "calculateDistance 0 0 d 0 = toFixedNum 2 (3958.8 * (d * pi / 180))"
proof -
  let ?x = "d * pi / 360"
  have x0: "0 \<le> ?x" using assms by simp
  have x1: "?x < pi / 2" using assms pi_gt_zero by simp
  have xm: "- (pi / 2) < ?x" using x0 pi_gt_zero by linarith
  have cp: "0 < cos ?x" using xm x1 by (rule cos_gt_zero_pi)
  have sp: "0 \<le> sin ?x" using x0 x1 by (intro sin_ge_zero) auto
  have s1: "sqrt (sin ?x * sin ?x) = sin ?x" using sp by simp
  have "1 - sin ?x * sin ?x = cos ?x * cos ?x"
    using sin_cos_squared_add[of ?x] by (simp add: power2_eq_square algebra_simps)
  hence s2: "sqrt (1 - sin ?x * sin ?x) = cos ?x" using cp by simp
  have at: "arctan (sin ?x / cos ?x) = ?x"
    using arctan_tan[OF xm x1] by (simp add: tan_def)
  have at2: "atan2 (sqrt (sin ?x * sin ?x)) (sqrt (1 - sin ?x * sin ?x)) = ?x"
    unfolding s1 s2 using cp at by (simp add: atan2_def)
  have "calculateDistance 0 0 d 0 =
        toFixedNum 2 (3958.8 * (2 * atan2 (sqrt (sin ?x * sin ?x)) (sqrt (1 - sin ?x * sin ?x))))"
    by (simp add: calculateDistance_def toRad_def Let_def)
  also have "\<dots> = toFixedNum 2 (3958.8 * (2 * ?x))" by (simp only: at2)
  also have "\<dots> = toFixedNum 2 (3958.8 * (d * pi / 180))" by simp
  finally show ?thesis .
qed

lemma calculateDistance_near:
  "0 < calculateDistance 0 0 0.0005 0 \<and> calculateDistance 0 0 0.0005 0 < 0.1"
proof -
  let ?v = "3958.8 * (0.0005 * pi / 180) * 100 :: real"
  have e: "calculateDistance 0 0 0.0005 0 = real_of_int (round ?v) / 100"
    using calculateDistance_meridian[of "0.0005"] pi_gt_zero by (simp add: toFixedNum_def)
  have lo: "1 \<le> ?v" using pi_ge_two by simp
  have hi: "?v \<le> 9" using pi_less_4 by simp
  have "round (1::real) \<le> round ?v" using lo by (rule round_mono)
  hence a: "1 \<le> round ?v" by simp
  have "round ?v \<le> round (9::real)" using hi by (rule round_mono)
  hence b: "round ?v \<le> 9" by simp
  show ?thesis unfolding e using a b by simp
qed

section \<open>The live tracker\<close>

lemma onPosition_lastPosition:
  "lastPosition (fst (onPosition t la lo)) = Some \<lparr>lat = la, lng = lo\<rparr>"
  by (simp add: onPosition_def Let_def split: option.split)

lemma onPosition_accumulated:
  "accumulatedDistance (fst (onPosition t la lo)) =
     accumulatedDistance t + baselineSegment (lastPosition t) [\<lparr>lat = la, lng = lo\<rparr>]"
  by (cases "lastPosition t") (simp_all add: onPosition_def Let_def)

lemma watchPosition_Cons:
  "fst (watchPosition t (s # rest)) = fst (watchPosition (fst (onPosition t (lat s) (lng s))) rest)"
  by (simp split: prod.split)

lemma watchPosition_accumulated:
  "smallSteps (s # rest) \<Longrightarrow>
   accumulatedDistance (fst (watchPosition (fst (onPosition t (lat s) (lng s))) rest)) =
     accumulatedDistance (fst (onPosition t (lat s) (lng s))) + pathDistance (s # rest)"
proof (induction rest arbitrary: t s)
  case Nil
  show ?case by simp
next
  case (Cons s' rest)
  from Cons.prems have small: "calculateDistance (lat s) (lng s) (lat s') (lng s') < 0.1"
    and rest: "smallSteps (s' # rest)" by simp_all
  let ?t1 = "fst (onPosition t (lat s) (lng s))"
  have step: "accumulatedDistance (fst (onPosition ?t1 (lat s') (lng s'))) =
      accumulatedDistance ?t1 + calculateDistance (lat s) (lng s) (lat s') (lng s')"
    using small by (simp add: onPosition_accumulated onPosition_lastPosition)
  have "accumulatedDistance (fst (watchPosition ?t1 (s' # rest))) =
        accumulatedDistance (fst (watchPosition (fst (onPosition ?t1 (lat s') (lng s'))) rest))"
    by (simp only: watchPosition_Cons)
  also have "\<dots> = accumulatedDistance (fst (onPosition ?t1 (lat s') (lng s'))) + pathDistance (s' # rest)"
    by (rule Cons.IH[OF rest])
  finally show ?case by (simp add: step)
qed

text \<open>
  C4, as the code has it. The start of tracking does not clear the last position, so a
  tracker that holds one measures the first sample against it. For samples whose
  consecutive segments are all below 0.1 miles, the accumulated distance after the
  samples is the sum of the segments between them, plus the distance from the held
  position to the first sample when that is below 0.1 miles. When no position is held,
  the first sample adds nothing and the accumulated distance is the sum of the segments.
\<close>

theorem tracker_sum:
  assumes "smallSteps samples"
  shows "accumulatedDistance (fst (watchPosition (startTracking t) samples)) =
           baselineSegment (lastPosition t) samples + pathDistance samples"
proof (cases samples)
  case Nil
  then show ?thesis by (simp add: startTracking_def)
next
  case (Cons s rest)
  let ?t0 = "startTracking t"
  have "accumulatedDistance (fst (watchPosition ?t0 samples)) =
        accumulatedDistance (fst (watchPosition (fst (onPosition ?t0 (lat s) (lng s))) rest))"
    by (simp only: Cons watchPosition_Cons)
  also have "\<dots> = accumulatedDistance (fst (onPosition ?t0 (lat s) (lng s))) + pathDistance (s # rest)"
    using assms by (intro watchPosition_accumulated) (simp add: Cons)
  also have "accumulatedDistance (fst (onPosition ?t0 (lat s) (lng s))) =
             baselineSegment (lastPosition t) samples"
    by (cases "lastPosition t") (simp_all add: onPosition_accumulated startTracking_def Cons)
  finally show ?thesis by (simp add: Cons)
qed

theorem tracker_sum_witness:
  "smallSteps [\<lparr>lat = 0, lng = 0\<rparr>, \<lparr>lat = 0.0005, lng = 0\<rparr>] \<and>
   accumulatedDistance (fst (watchPosition (startTracking initialTracker)
       [\<lparr>lat = 0, lng = 0\<rparr>, \<lparr>lat = 0.0005, lng = 0\<rparr>])) =
     calculateDistance 0 0 0.0005 0"
  using tracker_sum[of "[\<lparr>lat = 0, lng = 0\<rparr>, \<lparr>lat = 0.0005, lng = 0\<rparr>]" initialTracker]
    calculateDistance_near
  by (simp add: initialTracker_def)

text \<open>
  C4 as stated fails: the map was initialised at (0, 0), tracking starts, and the single
  sample (0.0005, 0) arrives. There is no segment between samples, yet the accumulated
  distance is the distance from (0, 0) to the sample, which is not 0.
\<close>

theorem tracker_sum_counterexample:
  "smallSteps [\<lparr>lat = 0.0005, lng = 0\<rparr>] \<and>
   accumulatedDistance
     (fst (watchPosition (startTracking (initializeMap initialTracker 0 0))
        [\<lparr>lat = 0.0005, lng = 0\<rparr>]))
     \<noteq> pathDistance [\<lparr>lat = 0.0005, lng = 0\<rparr>]"
  using calculateDistance_near
  by (simp add: initializeMap_def initialTracker_def startTracking_def onPosition_def Let_def)

text \<open>
  C5. A tracker holds a last position and a sample arrives whose distance from it is at
  least 0.1 miles. The accumulated distance is unchanged, the last position becomes the
  location of the rejected sample, and the next sample is measured from there.
\<close>

theorem rejected_sample:
  assumes "lastPosition t = Some p"
    and "0.1 \<le> calculateDistance (lat p) (lng p) la lo"
  shows "accumulatedDistance (fst (onPosition t la lo)) = accumulatedDistance t
       \<and> lastPosition (fst (onPosition t la lo)) = Some \<lparr>lat = la, lng = lo\<rparr>
       \<and> accumulatedDistance (fst (onPosition (fst (onPosition t la lo)) la' lo')) =
           accumulatedDistance t +
             (if calculateDistance la lo la' lo' < 0.1 then calculateDistance la lo la' lo' else 0)"
  using assms by (simp add: onPosition_def Let_def)

theorem rejected_sample_witness:
  "lastPosition (initializeMap initialTracker 0 0) = Some \<lparr>lat = 0, lng = 0\<rparr>
   \<and> 0.1 \<le> calculateDistance 0 0 0 180
   \<and> accumulatedDistance (fst (onPosition (initializeMap initialTracker 0 0) 0 180)) = 0
   \<and> lastPosition (fst (onPosition (initializeMap initialTracker 0 0) 0 180)) =
       Some \<lparr>lat = 0, lng = 180\<rparr>"
proof -
  have h1: "lastPosition (initializeMap initialTracker 0 0) = Some \<lparr>lat = 0, lng = 0\<rparr>"
    by (simp add: initializeMap_def)
  have h2: "0.1 \<le> calculateDistance (lat \<lparr>lat = 0, lng = 0\<rparr>) (lng \<lparr>lat = 0, lng = 0\<rparr>) 0 180"
    using calculateDistance_antipode by simp
  show ?thesis
    using rejected_sample[OF h1 h2] h1 calculateDistance_antipode
    by (simp add: initializeMap_def initialTracker_def)
qed

text \<open>
  C6, as the code has it. The start of tracking sets the accumulated distance to 0 and
  leaves the last position as it is. When no position is held, the first sample only
  becomes the last position: nothing is added and nothing is reported. When a position
  is held, the first sample is measured against it and its segment is added when it is
  below 0.1 miles.
\<close>

theorem reset_keeps_position:
  "accumulatedDistance (startTracking t) = 0
   \<and> lastPosition (startTracking t) = lastPosition t
   \<and> (lastPosition t = None \<longrightarrow>
        onPosition (startTracking t) la lo =
          (t\<lparr>accumulatedDistance := 0, lastPosition := Some \<lparr>lat = la, lng = lo\<rparr>\<rparr>, None))
   \<and> (\<forall>p. lastPosition t = Some p \<longrightarrow>
        accumulatedDistance (fst (onPosition (startTracking t) la lo)) =
          (if calculateDistance (lat p) (lng p) la lo < 0.1
           then calculateDistance (lat p) (lng p) la lo else 0))"
  by (simp add: startTracking_def onPosition_def Let_def)

theorem reset_keeps_position_witness:
  "lastPosition initialTracker = None
   \<and> onPosition (startTracking initialTracker) 40 (-74) =
       (\<lparr>lastPosition = Some \<lparr>lat = 40, lng = -74\<rparr>, accumulatedDistance = 0\<rparr>, None)
   \<and> lastPosition (initializeMap initialTracker 0 0) = Some \<lparr>lat = 0, lng = 0\<rparr>
   \<and> 0 < accumulatedDistance
           (fst (onPosition (startTracking (initializeMap initialTracker 0 0)) 0.0005 0))"
  using reset_keeps_position[of initialTracker 40 "-74"]
    reset_keeps_position[of "initializeMap initialTracker 0 0" "0.0005" 0]
    calculateDistance_near
  by (simp add: initialTracker_def initializeMap_def)

text \<open>
  C6 as stated fails: after the map was initialised at (0, 0), the start of tracking
  leaves that position in place, and the first sample (0.0005, 0) adds its distance
  from it.
\<close>

theorem reset_counterexample:
  "lastPosition (startTracking (initializeMap initialTracker 0 0)) \<noteq> None
   \<and> accumulatedDistance
       (fst (onPosition (startTracking (initializeMap initialTracker 0 0)) 0.0005 0)) \<noteq> 0"
  using calculateDistance_near
  by (simp add: initializeMap_def initialTracker_def startTracking_def onPosition_def Let_def)

text \<open>
  C9, as the code has it. The callback reports a distance exactly for an accepted
  sample: a last position is held and the segment from it is below 0.1 miles. The report
  carries the location of the sample and the accumulated distance after it. A rejected
  sample, and a first sample without a held position, report nothing.
\<close>

theorem report_only_accepted:
  "(snd (onPosition t la lo) \<noteq> None \<longleftrightarrow>
      (\<exists>p. lastPosition t = Some p \<and> calculateDistance (lat p) (lng p) la lo < 0.1))
   \<and> (\<forall>u. snd (onPosition t la lo) = Some u \<longrightarrow>
        u = (la, lo, accumulatedDistance (fst (onPosition t la lo))))"
  by (cases "lastPosition t") (auto simp add: onPosition_def Let_def)

theorem report_only_accepted_witness:
  "snd (onPosition (initializeMap initialTracker 0 0) 0.0005 0) =
     Some (0.0005, 0,
       accumulatedDistance (fst (onPosition (initializeMap initialTracker 0 0) 0.0005 0)))"
proof -
  have "\<exists>p. lastPosition (initializeMap initialTracker 0 0) = Some p
          \<and> calculateDistance (lat p) (lng p) 0.0005 0 < 0.1"
    using calculateDistance_near by (simp add: initializeMap_def)
  with report_only_accepted[of "initializeMap initialTracker 0 0" "0.0005" 0]
  show ?thesis by auto
qed

text \<open>
  C9 as stated fails: with the last position (0, 0), the sample (0, 180) is rejected
  and the callback does not call \<open>onLocationUpdate\<close>.
\<close>

theorem report_counterexample:
  "snd (onPosition (initializeMap initialTracker 0 0) 0 180) = None"
  using calculateDistance_antipode
  by (simp add: initializeMap_def initialTracker_def onPosition_def Let_def)

section \<open>The target of a run\<close>


text \<open>
  With a re-render between the two updates the second one raises nothing.
\<close>

lemma target_reached_rerendered:
  "snd (handleEvents (beginRun initialSession 1)
          [LocationUpdate 40 (-74) 1.02, Rerender, LocationUpdate 40 (-74) 1.05]) =
     [[Vibrate [200, 100, 200, 100, 200], ToastTargetReached 1], []]"
  by (simp add: beginRun_def startTargetRun_def initialSession_def handleLocationUpdate_def)

text \<open>
  The page after a location update and the re-render that follows it.
\<close>

lemma handleEvents_rerenderEach_Cons:
  "handleEvents p (rerenderEach ((la, lo, d) # rest)) =
     (fst (handleEvents
             \<lparr>reactState = foldl applyUpdate (reactState p)
                              (fst (handleLocationUpdate (subscribed p) la lo d)),
              subscribed = foldl applyUpdate (reactState p)
                              (fst (handleLocationUpdate (subscribed p) la lo d))\<rparr>
             (rerenderEach rest)),
      snd (handleLocationUpdate (subscribed p) la lo d) #
      snd (handleEvents
             \<lparr>reactState = foldl applyUpdate (reactState p)
                              (fst (handleLocationUpdate (subscribed p) la lo d)),
              subscribed = foldl applyUpdate (reactState p)
                              (fst (handleLocationUpdate (subscribed p) la lo d))\<rparr>
             (rerenderEach rest)))"
  by (cases p) (simp add: case_prod_beta)

lemma handleEvents_rerenderEach_length:
  "length (snd (handleEvents p (rerenderEach us))) = length us"
proof (induction us arbitrary: p)
  case Nil
  show ?case by simp
next
  case (Cons u rest)
  obtain la lo d where u: "u = (la, lo, d)" by (cases u)
  show ?case unfolding u handleEvents_rerenderEach_Cons by (simp add: Cons.IH)
qed

lemma handleEvents_reached:
  "hasReachedTarget (subscribed p) \<Longrightarrow> hasReachedTarget (reactState p) \<Longrightarrow>
   ns \<in> set (snd (handleEvents p (rerenderEach us))) \<Longrightarrow> ns = []"
proof (induction us arbitrary: p)
  case Nil
  then show ?case by simp
next
  case (Cons u rest)
  obtain la lo d where u: "u = (la, lo, d)" by (cases u)
  let ?h = "handleLocationUpdate (subscribed p) la lo d"
  let ?s = "foldl applyUpdate (reactState p) (fst ?h)"
  let ?q = "\<lparr>reactState = ?s, subscribed = ?s\<rparr>"
  have a: "hasReachedTarget ?s" and b: "snd ?h = []"
    using Cons.prems(1,2) by (simp_all add: handleLocationUpdate_def)
  have "ns = [] \<or> ns \<in> set (snd (handleEvents ?q (rerenderEach rest)))"
    using Cons.prems(3) b unfolding u handleEvents_rerenderEach_Cons by auto
  then show ?case using Cons.IH[of ?q] a by auto
qed

text \<open>
  What the guard of the handler achieves when \<open>Index\<close> renders again after every location
  update, so that each update is handled on the state the update before it left: of any
  sequence of updates, only the first whose distance is at least the target raises the
  notifications.
\<close>

lemma target_reached_once_rerendered:
  assumes "subscribed p = reactState p" and "\<not> hasReachedTarget (reactState p)"
  shows "length (filter (\<lambda>ns. ns \<noteq> []) (snd (handleEvents p (rerenderEach us)))) =
           (if \<exists>u \<in> set us. targetDistance (reactState p) \<le> snd (snd u) then 1 else 0)
       \<and> (\<forall>i < length us.
            snd (handleEvents p (rerenderEach us)) ! i \<noteq> [] \<longleftrightarrow>
              (targetDistance (reactState p) \<le> snd (snd (us ! i)) \<and>
               (\<forall>j < i. snd (snd (us ! j)) < targetDistance (reactState p))))"
  using assms
proof (induction us arbitrary: p)
  case Nil
  then show ?case by simp
next
  case (Cons u rest)
  obtain la lo d where u: "u = (la, lo, d)" by (cases u)
  let ?T = "targetDistance (reactState p)"
  let ?h = "handleLocationUpdate (subscribed p) la lo d"
  let ?s = "foldl applyUpdate (reactState p) (fst ?h)"
  let ?q = "\<lparr>reactState = ?s, subscribed = ?s\<rparr>"
  let ?ns = "snd ?h"
  let ?out = "snd (handleEvents ?q (rerenderEach rest))"
  have unf: "snd (handleEvents p (rerenderEach ((la, lo, d) # rest))) = ?ns # ?out"
    unfolding handleEvents_rerenderEach_Cons by simp
  have tgt: "targetDistance ?s = ?T" by (simp add: handleLocationUpdate_def)
  have q: "subscribed ?q = reactState ?q" by simp
  show ?case
  proof (cases "?T \<le> d")
    case True
    have r: "hasReachedTarget ?s" and n: "?ns \<noteq> []"
      using True Cons.prems by (simp_all add: handleLocationUpdate_def)
    have empty: "ns = []" if "ns \<in> set ?out" for ns
      using handleEvents_reached[of ?q ns rest] r that by simp
    then have f: "filter (\<lambda>ns. ns \<noteq> []) ?out = []"
      by (simp add: filter_empty_conv)
    have later: "?out ! k = []" if "k < length rest" for k
      using empty[of "?out ! k"] that by (simp add: handleEvents_rerenderEach_length)
    have idx: "(?ns # ?out) ! i \<noteq> [] \<longleftrightarrow>
              (?T \<le> snd (snd (((la, lo, d) # rest) ! i)) \<and>
               (\<forall>j < i. snd (snd (((la, lo, d) # rest) ! j)) < ?T))"
      if "i < length ((la, lo, d) # rest)" for i
    proof (cases i)
      case 0
      then show ?thesis using n True by simp
    next
      case (Suc k)
      have "\<not> (\<forall>j < i. snd (snd (((la, lo, d) # rest) ! j)) < ?T)"
        using True Suc by (auto intro: exI[of _ 0])
      then show ?thesis using later[of k] that Suc by simp
    qed
    show ?thesis unfolding u unf using n f True idx by simp
  next
    case False
    have r: "\<not> hasReachedTarget (reactState ?q)" and n: "?ns = []"
      using False Cons.prems by (simp_all add: handleLocationUpdate_def)
    have rq: "reactState ?q = ?s" by simp
    note IH = Cons.IH[OF q r, unfolded rq tgt]
    have idx: "(?ns # ?out) ! i \<noteq> [] \<longleftrightarrow>
              (?T \<le> snd (snd (((la, lo, d) # rest) ! i)) \<and>
               (\<forall>j < i. snd (snd (((la, lo, d) # rest) ! j)) < ?T))"
      if "i < length ((la, lo, d) # rest)" for i
    proof (cases i)
      case 0
      then show ?thesis using n False by simp
    next
      case (Suc k)
      have k: "k < length rest" using that Suc by simp
      have "(\<forall>j < Suc k. snd (snd (((la, lo, d) # rest) ! j)) < ?T) \<longleftrightarrow>
            (\<forall>j < k. snd (snd (rest ! j)) < ?T)"
        using False by (auto simp: less_Suc_eq_0_disj)
      then show ?thesis using IH k Suc by simp
    qed
    show ?thesis unfolding u unf using n False IH idx by simp
  qed
qed

section \<open>Geometric routes\<close>

lemma waypointLoop_extends:
  "\<exists>ws. fst (waypointLoop random m k la lo d pts) = pts @ ws \<and> length ws = m"
proof (induction m arbitrary: k la lo pts)
  case 0
  show ?case by simp
next
  case (Suc m)
  obtain p k' where g: "generatePointAtDistance random k la lo d = (p, k')"
    by (cases "generatePointAtDistance random k la lo d")
  from Suc.IH[of k' "lat p" "lng p" "pts @ [p]"]
  obtain ws where "fst (waypointLoop random m k' (lat p) (lng p) d (pts @ [p])) = (pts @ [p]) @ ws"
    and "length ws = m" by blast
  then show ?case by (intro exI[of _ "p # ws"]) (simp add: g)
qed

lemma generateRoute_shape:
  "\<exists>ws. fst (generateRoute random k la lo t) =
          \<lparr>lat = la, lng = lo\<rparr> # ws @ [\<lparr>lat = la, lng = lo\<rparr>]
        \<and> length ws = nat (max 3 \<lfloor>t * 3\<rfloor> - 1)"
proof -
  let ?n = "max 3 \<lfloor>t * 3\<rfloor>"
  from waypointLoop_extends[of random "nat (?n - 1)" k la lo "t / real_of_int ?n" "[\<lparr>lat = la, lng = lo\<rparr>]"]
  obtain ws where "fst (waypointLoop random (nat (?n - 1)) k la lo (t / real_of_int ?n)
                     [\<lparr>lat = la, lng = lo\<rparr>]) = [\<lparr>lat = la, lng = lo\<rparr>] @ ws"
    and "length ws = nat (?n - 1)" by blast
  then show ?thesis
    by (intro exI[of _ ws]) (simp add: generateRoute_def Let_def case_prod_beta)
qed

lemma generateRoute_loop:
  "4 \<le> length (fst (generateRoute random k la lo t))
   \<and> hd (fst (generateRoute random k la lo t)) = \<lparr>lat = la, lng = lo\<rparr>
   \<and> last (fst (generateRoute random k la lo t)) = \<lparr>lat = la, lng = lo\<rparr>"
proof -
  from generateRoute_shape[of random k la lo t]
  obtain ws where e: "fst (generateRoute random k la lo t) =
          \<lparr>lat = la, lng = lo\<rparr> # ws @ [\<lparr>lat = la, lng = lo\<rparr>]"
    and l: "length ws = nat (max 3 \<lfloor>t * 3\<rfloor> - 1)" by blast
  have "2 \<le> length ws" unfolding l by simp
  then show ?thesis unfolding e by simp
qed

lemma routeLoop_routes:
  "\<exists>new. fst (routeLoop random m i k la lo t routes) = routes @ new
     \<and> length new = m
     \<and> (\<forall>r \<in> set new.
          4 \<le> length (points r)
          \<and> hd (points r) = \<lparr>lat = la, lng = lo\<rparr>
          \<and> last (points r) = \<lparr>lat = la, lng = lo\<rparr>
          \<and> (\<exists>j. distance r = t * (0.95 + random j * 0.1)))"
proof (induction m arbitrary: i k routes)
  case 0
  show ?case by simp
next
  case (Suc m)
  let ?adj = "t * (0.95 + random k * 0.1)"
  let ?g = "generateRoute random (Suc k) la lo ?adj"
  let ?r = "\<lparr>routeId = ''route-'' @ showNat i, points = fst ?g, distance = ?adj,
             description = descriptions ! (i mod length descriptions),
             color = colors ! (i mod length colors)\<rparr>"
  have unf: "routeLoop random (Suc m) i k la lo t routes =
             routeLoop random m (Suc i) (snd ?g) la lo t (routes @ [?r])"
    by (simp add: Let_def case_prod_beta)
  from Suc.IH[of "Suc i" "snd ?g" "routes @ [?r]"]
  obtain new where n1: "fst (routeLoop random m (Suc i) (snd ?g) la lo t (routes @ [?r])) = (routes @ [?r]) @ new"
    and n2: "length new = m"
    and n3: "\<forall>r \<in> set new.
          4 \<le> length (points r)
          \<and> hd (points r) = \<lparr>lat = la, lng = lo\<rparr>
          \<and> last (points r) = \<lparr>lat = la, lng = lo\<rparr>
          \<and> (\<exists>j. distance r = t * (0.95 + random j * 0.1))" by blast
  have p: "4 \<le> length (fst ?g) \<and> hd (fst ?g) = \<lparr>lat = la, lng = lo\<rparr>
           \<and> last (fst ?g) = \<lparr>lat = la, lng = lo\<rparr>"
    by (rule generateRoute_loop)
  have e: "fst (routeLoop random (Suc m) i k la lo t routes) = routes @ ?r # new"
    unfolding unf n1 by simp
  have l: "length (?r # new) = Suc m" using n2 by simp
  have "4 \<le> length (points r)
          \<and> hd (points r) = \<lparr>lat = la, lng = lo\<rparr>
          \<and> last (points r) = \<lparr>lat = la, lng = lo\<rparr>
          \<and> (\<exists>j. distance r = t * (0.95 + random j * 0.1))"
    if "r \<in> set (?r # new)" for r
  proof -
    from that consider "r = ?r" | "r \<in> set new" by auto
    then show ?thesis
    proof cases
      case 1
      then show ?thesis using p by auto
    next
      case 2
      with n3 show ?thesis by blast
    qed
  qed
  with e l show ?case by blast
qed


lemma routeLoop_first:
  "\<exists>r rest. fst (routeLoop random (Suc m) i k la lo t []) = r # rest
     \<and> distance r = t * (0.95 + random k * 0.1)"
proof -
  let ?adj = "t * (0.95 + random k * 0.1)"
  let ?g = "generateRoute random (Suc k) la lo ?adj"
  let ?r = "\<lparr>routeId = ''route-'' @ showNat i, points = fst ?g, distance = ?adj,
             description = descriptions ! (i mod length descriptions),
             color = colors ! (i mod length colors)\<rparr>"
  have unf: "routeLoop random (Suc m) i k la lo t [] =
             routeLoop random m (Suc i) (snd ?g) la lo t ([] @ [?r])"
    by (simp add: Let_def case_prod_beta)
  from routeLoop_routes[of random m "Suc i" "snd ?g" la lo t "[] @ [?r]"]
  obtain new where "fst (routeLoop random m (Suc i) (snd ?g) la lo t ([] @ [?r])) = ([] @ [?r]) @ new"
    by blast
  then have "fst (routeLoop random (Suc m) i k la lo t []) = ?r # new"
    unfolding unf by simp
  then show ?thesis by (intro exI[of _ ?r] exI[of _ new]) simp
qed

lemma toFixedNum_hundredths: "\<exists>n::int. toFixedNum 2 x = real_of_int n / 100"
proof (cases "x < 0")
  case True
  then have "toFixedNum 2 x = real_of_int (- round (- x * 10\<^sup>2)) / 100"
    by (simp add: toFixedNum_def)
  then show ?thesis by blast
next
  case False
  then have "toFixedNum 2 x = real_of_int (round (x * 10\<^sup>2)) / 100"
    by (simp add: toFixedNum_def)
  then show ?thesis by blast
qed

lemma calculateDistance_hundredths:
  "\<exists>n::int. calculateDistance lat1 lon1 lat2 lon2 = real_of_int n / 100"
  unfolding calculateDistance_def Let_def by (rule toFixedNum_hundredths)

lemma pathDistance_hundredths: "\<exists>n::int. pathDistance ps = real_of_int n / 100"
proof (induction ps rule: pathDistance.induct)
  case (1 a b rest)
  then obtain n where n: "pathDistance (b # rest) = real_of_int n / 100" by blast
  obtain m where m: "calculateDistance (lat a) (lng a) (lat b) (lng b) = real_of_int m / 100"
    using calculateDistance_hundredths by blast
  have "pathDistance (a # b # rest) = real_of_int (m + n) / 100"
    by (simp add: m n add_divide_distrib)
  then show ?case by blast
qed (auto intro: exI[of _ 0])

lemma not_hundredths: "(0.955::real) \<noteq> real_of_int n / 100"
proof
  assume "(0.955::real) = real_of_int n / 100"
  then have "real_of_int (2 * n) = real_of_int 191" by simp
  then have "2 * n = 191" by (simp only: of_int_eq_iff)
  then show False by presburger
qed

text \<open>
  C1, as the code has it. Every route of a geometric batch carries as its distance the
  adjusted target distance, the requested target times a variation factor
  \<open>0.95 + random * 0.1\<close> drawn for the route; the first route's factor is the first number
  drawn. The distance is not computed from the points.
\<close>

theorem route_distance_adjusted:
  assumes "generateRouteOptions random k startLat startLng targetDist numRoutes = Inr (routes, k')"
    and "r \<in> set routes"
  shows "(\<exists>j. distance r = targetDist * (0.95 + random j * 0.1))
       \<and> distance (hd routes) = targetDist * (0.95 + random k * 0.1)"
proof -
  have routes: "routes = fst (routeLoop random (nat numRoutes) 0 k startLat startLng targetDist [])"
    using assms(1) by (simp add: generateRouteOptions_def prod_eq_iff)
  from routeLoop_routes[of random "nat numRoutes" 0 k startLat startLng targetDist "[]"] routes
  have a: "\<exists>j. distance r = targetDist * (0.95 + random j * 0.1)"
    and len: "length routes = nat numRoutes"
    using assms(2) by auto
  from len assms(2) obtain m where m: "nat numRoutes = Suc m" by (cases "nat numRoutes") auto
  from routeLoop_first[of random m 0 k startLat startLng targetDist]
  have "distance (hd routes) = targetDist * (0.95 + random k * 0.1)"
    unfolding routes m by auto
  with a show ?thesis by blast
qed

theorem route_distance_adjusted_witness:
  "distance (hd (fst (projr (generateRouteOptions (fixedRandom 0.05) 0 40 (-74) 1 1)))) = 0.955"
proof -
  let ?res = "generateRouteOptions (fixedRandom 0.05) 0 40 (-74) 1 1"
  have h1: "?res = Inr (fst (projr ?res), snd (projr ?res))"
    by (simp add: generateRouteOptions_def)
  from routeLoop_routes[of "fixedRandom 0.05" "nat 1" 0 0 40 "-74" 1 "[]"]
  have "length (fst (projr ?res)) = 1" by (auto simp add: generateRouteOptions_def)
  then have h2: "hd (fst (projr ?res)) \<in> set (fst (projr ?res))"
    by (cases "fst (projr ?res)") auto
  from route_distance_adjusted[OF h1 h2] show ?thesis by (simp add: fixedRandom_def)
qed

text \<open>
  C1 as stated fails: with the target 1 and the variation draw 0.05 the route's distance
  is 0.955, while the length of its polyline is a sum of distances rounded to
  hundredths, so a whole number of hundredths.
\<close>

theorem route_distance_counterexample:
  "distance (hd (fst (projr (generateRouteOptions (fixedRandom 0.05) 0 40 (-74) 1 1)))) \<noteq>
   pathDistance (points (hd (fst (projr (generateRouteOptions (fixedRandom 0.05) 0 40 (-74) 1 1)))))"
proof -
  let ?res = "generateRouteOptions (fixedRandom 0.05) 0 40 (-74) 1 1"
  from routeLoop_first[of "fixedRandom 0.05" 0 0 0 40 "-74" 1]
  have d: "distance (hd (fst (projr ?res))) = 0.955"
    by (auto simp add: generateRouteOptions_def fixedRandom_def)
  obtain n where n: "pathDistance (points (hd (fst (projr ?res)))) = real_of_int n / 100"
    using pathDistance_hundredths by blast
  show ?thesis unfolding d n by (rule not_hundredths)
qed

text \<open>
  C7. Every route of a geometric batch, for any origin, any target distance and any
  random draws, has at least 4 points, and its first and its last point are both the
  origin.
\<close>

theorem geometric_route_closed:
  assumes "generateRouteOptions random k startLat startLng targetDist numRoutes = Inr (routes, k')"
    and "r \<in> set routes"
  shows "4 \<le> length (points r)
       \<and> hd (points r) = last (points r)
       \<and> hd (points r) = \<lparr>lat = startLat, lng = startLng\<rparr>"
proof -
  have routes: "routes = fst (routeLoop random (nat numRoutes) 0 k startLat startLng targetDist [])"
    using assms(1) by (simp add: generateRouteOptions_def prod_eq_iff)
  from routeLoop_routes[of random "nat numRoutes" 0 k startLat startLng targetDist "[]"] routes
  show ?thesis using assms(2) by auto
qed

theorem geometric_route_closed_witness:
  "4 \<le> length (points (hd (fst (projr (generateRouteOptions (fixedRandom 0.5) 0 40 (-74) 2 3)))))
   \<and> hd (points (hd (fst (projr (generateRouteOptions (fixedRandom 0.5) 0 40 (-74) 2 3))))) =
       last (points (hd (fst (projr (generateRouteOptions (fixedRandom 0.5) 0 40 (-74) 2 3)))))"
proof -
  let ?res = "generateRouteOptions (fixedRandom 0.5) 0 40 (-74) 2 3"
  have h1: "?res = Inr (fst (projr ?res), snd (projr ?res))"
    by (simp add: generateRouteOptions_def)
  from routeLoop_routes[of "fixedRandom 0.5" "nat 3" 0 0 40 "-74" 2 "[]"]
  have "length (fst (projr ?res)) = 3" by (auto simp add: generateRouteOptions_def)
  then have h2: "hd (fst (projr ?res)) \<in> set (fst (projr ?res))"
    by (cases "fst (projr ?res)") auto
  from geometric_route_closed[OF h1 h2] show ?thesis by simp
qed

text \<open>
  C8, as the code has it. Geometric synthesis checks nothing and never fails: for every
  target distance, positive or not, and every count it returns, with as many routes as
  the count says and none when the count is below 1.
\<close>

theorem synthesis_never_fails:
  "\<exists>routes k'. generateRouteOptions random k startLat startLng targetDist numRoutes = Inr (routes, k')
     \<and> length routes = nat numRoutes"
proof -
  let ?l = "routeLoop random (nat numRoutes) 0 k startLat startLng targetDist []"
  from routeLoop_routes[of random "nat numRoutes" 0 k startLat startLng targetDist "[]"]
  have "length (fst ?l) = nat numRoutes" by auto
  moreover have "generateRouteOptions random k startLat startLng targetDist numRoutes =
                 Inr (fst ?l, snd ?l)"
    by (simp add: generateRouteOptions_def)
  ultimately show ?thesis by blast
qed

text \<open>
  C8 as stated fails: with the count 0 the call returns the empty list, and with the
  target distance -2 it returns 3 routes; neither call fails.
\<close>

theorem synthesis_validation_counterexample:
  "generateRouteOptions (fixedRandom 0) 0 40 (-74) 2 0 = Inr ([], 0)
   \<and> \<not> isl (generateRouteOptions (fixedRandom 0) 0 40 (-74) (-2) 3)
   \<and> length (fst (projr (generateRouteOptions (fixedRandom 0) 0 40 (-74) (-2) 3))) = 3"
proof -
  from routeLoop_routes[of "fixedRandom 0" "nat 3" 0 0 40 "-74" "-2" "[]"]
  have "length (fst (projr (generateRouteOptions (fixedRandom 0) 0 40 (-74) (-2) 3))) = 3"
    by (auto simp add: generateRouteOptions_def)
  then show ?thesis by (simp add: generateRouteOptions_def)
qed

section \<open>The directions service\<close>

lemma fetchRouteFromMapbox_never_throws:
  "fetchRouteFromMapbox depth fetch k startLat startLng targetDist directionBias \<noteq> Some (Inl e, k')"
  by (cases depth)
     (auto simp add: Let_def split: prod.splits sum.splits option.splits if_splits)

lemma tryRoute_offline:
  "tryRoute offline k startLat startLng targetDist directionBias = (Inl FetchRejected, Suc k)"
  by (simp add: tryRoute_def offline_def Let_def)

text \<open>
  C3, at the input where the code departs from it. With no network every request is
  rejected. The \<open>catch\<close> block then calls \<open>fetchRouteFromMapbox\<close> again with the same
  distance and the direction turned by 90 degrees, and that call does the same: within
  no depth of calls does the function return. The retry with the shorter distance and
  the fallback to the origin are only reached when the inner call throws, which by
  \<open>fetchRouteFromMapbox_never_throws\<close> it never does.
\<close>

theorem fetch_offline_never_returns:
  "fetchRouteFromMapbox depth offline k startLat startLng targetDist directionBias = None"
proof (induction depth arbitrary: k directionBias)
  case 0
  show ?case by simp
next
  case (Suc depth)
  show ?case by (simp add: tryRoute_offline Suc.IH)
qed

text \<open>The same for every service on which no attempt succeeds.\<close>

lemma fetch_failing_never_returns:
  assumes "\<And>j a b. fst (tryRoute fetch j startLat startLng targetDist b) \<noteq> Inr a"
  shows "fetchRouteFromMapbox depth fetch k startLat startLng targetDist directionBias = None"
proof (induction depth arbitrary: k directionBias)
  case 0
  show ?case by simp
next
  case (Suc depth)
  obtain r k1 where t: "tryRoute fetch k startLat startLng targetDist directionBias = (r, k1)"
    by (cases "tryRoute fetch k startLat startLng targetDist directionBias")
  with assms[of k directionBias] obtain e where "r = Inl e" by (cases r) auto
  with t show ?case by (simp add: Suc.IH)
qed

section \<open>The distance formatter\<close>














end
